theory Spec2Isabelle
  imports Main "HOL-Library.Word"
begin

section \<open>JavaScript values used by proxy.js\<close>

text \<open>
  A JavaScript string is a sequence of 16-bit code units; a Buffer is a sequence of
  bytes. \<open>undefined\<close> is \<open>None\<close> of an option type. A call that throws returns
  \<open>Inl\<close> of the exception, a call that returns normally \<open>Inr\<close> of its value.
\<close>

type_synonym jsstring = "16 word list"
type_synonym buffer = "8 word list"

definition js :: "string \<Rightarrow> jsstring" where
  "js s = map (\<lambda>c. of_nat (of_char c)) s"

definition ascii :: "string \<Rightarrow> buffer" where
  "ascii s = map (\<lambda>c. of_nat (of_char c)) s"

datatype exception =
    Thrown
  | TypeError
  | ERR_INVALID_URL
  | ERR_INVALID_PROTOCOL
  | ERR_HTTP_HEADERS_SENT
  | ERR_HTTP_INVALID_STATUS_CODE
  | ERR_SOCKET_BAD_PORT

definition colon :: "16 word" where
  "colon = 0x3A"

text \<open>\<open>String.prototype.split(sep)\<close> with a one-character separator: the pieces between
  the separators, in order; the result always has at least one element.\<close>

fun split :: "'a \<Rightarrow> 'a list \<Rightarrow> 'a list list" where
  "split sep [] = [[]]"
| "split sep (c # cs) =
     (let r = split sep cs in if c = sep then [] # r else (c # hd r) # tl r)"

text \<open>\<open>arr[i]\<close>, and the elements bound by an array destructuring: \<open>undefined\<close> past
  the end of the array.\<close>

definition at :: "'a list \<Rightarrow> nat \<Rightarrow> 'a option" where
  "at xs i = (if i < length xs then Some (xs ! i) else None)"

subsection \<open>Regular expressions of the source\<close>

text \<open>The class \<open>\s\<close> (white space and line terminators) and the characters that
  \<open>.\<close> does not match (line terminators).\<close>

definition isWhiteSpace :: "16 word \<Rightarrow> bool" where
  "isWhiteSpace c \<longleftrightarrow>
     c \<in> {0x09, 0x0A, 0x0B, 0x0C, 0x0D, 0x20, 0xA0, 0x1680, 0x2028, 0x2029,
          0x202F, 0x205F, 0x3000, 0xFEFF} \<or> (0x2000 \<le> c \<and> c \<le> 0x200A)"

definition isLineTerminator :: "16 word \<Rightarrow> bool" where
  "isLineTerminator c \<longleftrightarrow> c \<in> {0x0A, 0x0D, 0x2028, 0x2029}"

text \<open>Matching under the \<open>i\<close> flag against a pattern of ASCII letters: a code unit
  matches the letter in either case; no code unit outside ASCII is folded into ASCII.\<close>

definition canon :: "16 word \<Rightarrow> 16 word" where
  "canon c = (if 0x61 \<le> c \<and> c \<le> 0x7A then c - 0x20 else c)"

definition ci_prefix :: "jsstring \<Rightarrow> jsstring \<Rightarrow> bool" where
  "ci_prefix pat s \<longleftrightarrow>
     length pat \<le> length s \<and> map canon (take (length pat) s) = map canon pat"

text \<open>\<open>header.match(/^Basic\s+(.+)$/i)\<close>: the capture group \<open>m[1]\<close>, or \<open>None\<close>
  when the header does not match. \<open>\s+\<close> is greedy and gives characters back one at a
  time; \<open>(.+)$\<close> has to cover the rest of the header, which must be non-empty and free
  of line terminators.\<close>

definition match_basic :: "jsstring \<Rightarrow> jsstring option" where
  "match_basic header =
     (if ci_prefix (js ''Basic'') header then
        let rest = drop 5 header;
            n = length (takeWhile isWhiteSpace rest)
        in map_option (\<lambda>k. drop k rest)
             (find (\<lambda>k. drop k rest \<noteq> [] \<and> list_all (\<lambda>c. \<not> isLineTerminator c) (drop k rest))
                (rev [1..<Suc n]))
      else None)"

text \<open>\<open>/^https?:\/\//i.test(s)\<close>\<close>

definition test_absolute :: "jsstring \<Rightarrow> bool" where
  "test_absolute s \<longleftrightarrow> ci_prefix (js ''http://'') s \<or> ci_prefix (js ''https://'') s"

section \<open>Configuration and platform\<close>

text \<open>The module-level constants \<open>PROXY_USER\<close>, \<open>PROXY_PASS\<close> and \<open>WHITELIST\<close>,
  fixed when the process starts.\<close>

record config =
  PROXY_USER :: jsstring
  PROXY_PASS :: jsstring
  WHITELIST :: "jsstring list"

text \<open>The result of \<open>new url.URL(s)\<close> as far as the source reads it.\<close>

record url =
  url_protocol :: jsstring
  url_hostname :: jsstring
  url_href :: jsstring

text \<open>The two library calls whose result the source depends on and whose code is not
  part of proxy.js: \<open>Buffer.from(s, 'base64').toString()\<close> and \<open>new url.URL(s)\<close>. Both
  stand inside a \<open>try\<close> block of the source, so both may throw.\<close>

record platform =
  base64_toString :: "jsstring \<Rightarrow> exception + jsstring"
  new_URL :: "jsstring \<Rightarrow> exception + url"

section \<open>Authenticator and destination authorizer\<close>

text \<open>\<open>checkBasicAuth(header)\<close>, lines 19-30. The \<open>catch\<close> turns an exception of the
  \<open>try\<close> block into \<open>false\<close>; nothing outside the block can throw.\<close>

definition checkBasicAuth :: "platform \<Rightarrow> config \<Rightarrow> jsstring option \<Rightarrow> exception + bool" where
  "checkBasicAuth pf cfg header =
     (case header of
        None \<Rightarrow> Inr False
      | Some h \<Rightarrow>
          if h = [] then Inr False
          else (case match_basic h of
                  None \<Rightarrow> Inr False
                | Some m1 \<Rightarrow>
                    (case base64_toString pf m1 of
                       Inl e \<Rightarrow> Inr False
                     | Inr decoded \<Rightarrow>
                         let parts = split colon decoded;
                             user = at parts 0;
                             pass = at parts 1
                         in Inr (user = Some (PROXY_USER cfg) \<and> pass = Some (PROXY_PASS cfg)))))"

text \<open>\<open>hostAllowed(hostname)\<close>, lines 32-37.\<close>

definition hostAllowed :: "config \<Rightarrow> jsstring \<Rightarrow> bool" where
  "hostAllowed cfg hostname =
     (if length (WHITELIST cfg) = 0 then True
      else let hostOnly = at (split colon hostname) 0
           in (case hostOnly of None \<Rightarrow> False | Some h \<Rightarrow> h \<in> set (WHITELIST cfg)))"

section \<open>The platform's decoder\<close>

text \<open>
  \<open>Buffer.from(s, 'base64')\<close> as Node.js implements it: every code unit is read as a
  byte; a character outside the base64 alphabet (the URL-safe \<open>-\<close> and \<open>_\<close> belong to
  it) is skipped; decoding stops at the first \<open>=\<close>; four characters give three bytes, a
  last group of three gives two, of two gives one, a single left-over character none.
  The call does not throw.
\<close>

definition unbase64 :: "8 word \<Rightarrow> nat option" where
  "unbase64 c =
     (if 0x41 \<le> c \<and> c \<le> 0x5A then Some (unat c - 0x41)
      else if 0x61 \<le> c \<and> c \<le> 0x7A then Some (unat c - 0x61 + 26)
      else if 0x30 \<le> c \<and> c \<le> 0x39 then Some (unat c - 0x30 + 52)
      else if c = 0x2B \<or> c = 0x2D then Some 62
      else if c = 0x2F \<or> c = 0x5F then Some 63
      else None)"

fun base64_groups :: "nat list \<Rightarrow> buffer" where
  "base64_groups (a # b # c # d # rest) =
     of_nat (a * 4 + b div 16) # of_nat (b mod 16 * 16 + c div 4) # of_nat (c mod 4 * 64 + d)
       # base64_groups rest"
| "base64_groups [a, b, c] = [of_nat (a * 4 + b div 16), of_nat (b mod 16 * 16 + c div 4)]"
| "base64_groups [a, b] = [of_nat (a * 4 + b div 16)]"
| "base64_groups _ = []"

definition base64_decode :: "jsstring \<Rightarrow> buffer" where
  "base64_decode src =
     base64_groups (List.map_filter unbase64 (takeWhile (\<lambda>c. c \<noteq> 0x3D) (map ucast src)))"

text \<open>
  \<open>buf.toString()\<close>: UTF-8 decoding that never fails. \<open>need\<close> counts the continuation
  bytes still expected, \<open>cp\<close> collects the code point, \<open>lo\<close> and \<open>hi\<close> bound the next
  continuation byte. \<open>utf8_lead\<close> reads a byte at the start of a sequence. An
  ill-formed sequence gives U+FFFD and the byte that broke it is read again as the start
  of a sequence.
\<close>

definition utf8_lead :: "nat \<Rightarrow> nat list \<times> nat \<times> nat \<times> nat \<times> nat" where
  "utf8_lead v =
     (if v < 0x80 then ([v], 0, 0, 0x80, 0xBF)
      else if 0xC2 \<le> v \<and> v \<le> 0xDF then ([], 1, v mod 32, 0x80, 0xBF)
      else if 0xE0 \<le> v \<and> v \<le> 0xEF then
        ([], 2, v mod 16, if v = 0xE0 then 0xA0 else 0x80, if v = 0xED then 0x9F else 0xBF)
      else if 0xF0 \<le> v \<and> v \<le> 0xF4 then
        ([], 3, v mod 8, if v = 0xF0 then 0x90 else 0x80, if v = 0xF4 then 0x8F else 0xBF)
      else ([0xFFFD], 0, 0, 0x80, 0xBF))"

fun utf8_decode :: "nat \<times> nat \<times> nat \<times> nat \<Rightarrow> buffer \<Rightarrow> nat list" where
  "utf8_decode (need, cp, lo, hi) [] = (if need = 0 then [] else [0xFFFD])"
| "utf8_decode (need, cp, lo, hi) (b # bs) =
     (let v = unat b in
      if need = 0 then
        (case utf8_lead v of (out, st) \<Rightarrow> out @ utf8_decode st bs)
      else if v < lo \<or> hi < v then
        (case utf8_lead v of (out, st) \<Rightarrow> 0xFFFD # out @ utf8_decode st bs)
      else if need = 1 then (cp * 64 + v mod 64) # utf8_decode (0, 0, 0x80, 0xBF) bs
      else utf8_decode (need - 1, cp * 64 + v mod 64, 0x80, 0xBF) bs)"

definition utf16_units :: "nat \<Rightarrow> jsstring" where
  "utf16_units cp =
     (if cp < 0x10000 then [of_nat cp]
      else [of_nat (0xD800 + (cp - 0x10000) div 1024),
            of_nat (0xDC00 + (cp - 0x10000) mod 1024)])"

definition toString_utf8 :: "buffer \<Rightarrow> jsstring" where
  "toString_utf8 buf = concat (map utf16_units (utf8_decode (0, 0, 0x80, 0xBF) buf))"

definition node_base64_toString :: "jsstring \<Rightarrow> exception + jsstring" where
  "node_base64_toString s = Inr (toString_utf8 (base64_decode s))"

section \<open>Port of a tunnel request\<close>

text \<open>
  \<open>parseInt(x, 10)\<close>: \<open>undefined\<close> is read as the string "undefined"; leading white
  space is dropped, then one sign; the longest run of decimal digits that follows is the
  number; \<open>NaN\<close> (here \<open>None\<close>) when that run is empty. The result is exact below
  \<open>2 ^ 53\<close>, which covers every port number.
\<close>

definition isDigit :: "16 word \<Rightarrow> bool" where
  "isDigit c \<longleftrightarrow> 0x30 \<le> c \<and> c \<le> 0x39"

definition digits_value :: "jsstring \<Rightarrow> int" where
  "digits_value ds = foldl (\<lambda>a c. 10 * a + (uint c - 0x30)) 0 ds"

definition parseInt10 :: "jsstring option \<Rightarrow> int option" where
  "parseInt10 x =
     (let inputString = (case x of None \<Rightarrow> js ''undefined'' | Some s \<Rightarrow> s);
          S = dropWhile isWhiteSpace inputString;
          sign = (if S \<noteq> [] \<and> hd S = 0x2D then - 1 else 1);
          S' = (if S \<noteq> [] \<and> (hd S = 0x2B \<or> hd S = 0x2D) then tl S else S);
          Z = takeWhile isDigit S'
      in if Z = [] then None else Some (sign * digits_value Z))"

text \<open>\<open>n || 443\<close>: \<open>NaN\<close> and \<open>0\<close> are falsy.\<close>

definition or_443 :: "int option \<Rightarrow> int" where
  "or_443 n = (case n of None \<Rightarrow> 443 | Some v \<Rightarrow> if v = 0 then 443 else v)"

text \<open>Lines 109-110: \<open>const [host, portStr] = req.url.split(':')\<close> and
  \<open>const port = parseInt(portStr, 10) || 443\<close>.\<close>

definition connect_host :: "jsstring \<Rightarrow> jsstring option" where
  "connect_host target = at (split colon target) 0"

definition connect_port :: "jsstring \<Rightarrow> int" where
  "connect_port target = or_443 (parseInt10 (at (split colon target) 1))"

section \<open>Requests, responses and sockets\<close>

text \<open>
  A header value is a string; Node.js gives the \<open>set-cookie\<close> header of a response as
  an array of strings. \<open>req.headers\<close> has a string for every header the source reads.
\<close>

datatype hval = Str jsstring | Arr "jsstring list"

type_synonym headers = "jsstring \<rightharpoonup> jsstring"
type_synonym res_headers = "jsstring \<rightharpoonup> hval"

record request =
  req_method :: jsstring
  req_url :: jsstring
  req_headers :: headers

record options =
  opt_method :: jsstring
  opt_headers :: headers

definition CRLF :: string where
  "CRLF = [CHR 0x0D, CHR 0x0A]"

subsection \<open>HTTP relay\<close>

text \<open>
  What a handler does to the outside is the list of its calls on \<open>res\<close> (the response
  to the client) and on \<open>upstream\<close> (the outgoing request), in order. A string written
  to a stream is written as its bytes; all strings the source writes are ASCII.
\<close>

datatype http_call =
    Res_writeHead nat res_headers
  | Res_write buffer
  | Res_end "buffer option"
  | Http_request url options
  | Upstream_write buffer
  | Upstream_end

text \<open>
  The state of one exchange: \<open>headersSent\<close> is the flag of \<open>res\<close>; \<open>awaiting\<close>
  holds while the callbacks of lines 81 and 90 are registered on a live upstream
  request; \<open>req_piped\<close> and \<open>res_piped\<close> hold while \<open>req.pipe(upstream)\<close> and
  \<open>upstreamRes.pipe(res)\<close> are in place; \<open>uncaught\<close> is an exception that left a
  handler, which ends the process.
\<close>

record http_state =
  headersSent :: bool
  awaiting :: bool
  req_piped :: bool
  res_piped :: bool
  uncaught :: "exception option"

definition fresh :: http_state where
  "fresh = \<lparr>headersSent = False, awaiting = False, req_piped = False, res_piped = False,
            uncaught = None\<rparr>"

definition throw :: "exception \<Rightarrow> http_state \<Rightarrow> http_call list \<times> http_state" where
  "throw e st = ([], st\<lparr>awaiting := False, req_piped := False, res_piped := False,
                        uncaught := Some e\<rparr>)"

text \<open>\<open>res.writeHead(status, headers)\<close> throws when the head was already written and
  when the status is not a three-digit number.\<close>

definition res_writeHead :: "nat \<Rightarrow> res_headers \<Rightarrow> http_state \<Rightarrow> exception + http_call list \<times> http_state" where
  "res_writeHead status hs st =
     (if headersSent st then Inl ERR_HTTP_HEADERS_SENT
      else if status < 100 \<or> 999 < status then Inl ERR_HTTP_INVALID_STATUS_CODE
      else Inr ([Res_writeHead status hs], st\<lparr>headersSent := True\<rparr>))"

text \<open>\<open>res.writeHead(status, headers); res.end(body)\<close>\<close>

definition respond :: "nat \<Rightarrow> res_headers \<Rightarrow> string \<Rightarrow> http_state \<Rightarrow> http_call list \<times> http_state" where
  "respond status hs body st =
     (case res_writeHead status hs st of
        Inl e \<Rightarrow> throw e st
      | Inr (cs, st') \<Rightarrow> (cs @ [Res_end (Some (ascii body))], st'))"

text \<open>\<open>unauthorized(res)\<close>, lines 14-17.\<close>

definition unauthorized :: "http_state \<Rightarrow> http_call list \<times> http_state" where
  "unauthorized st =
     respond 407 [js ''Proxy-Authenticate'' \<mapsto> Str (js ''Basic realm=\"Proxy\"'')]
       ''Proxy authentication required'' st"

text \<open>Lines 48-64: the target URL, or the 400 response that ends the handler.\<close>

definition resolve_target :: "platform \<Rightarrow> request \<Rightarrow> string + url" where
  "resolve_target pf req =
     (if test_absolute (req_url req) then
        (case new_URL pf (req_url req) of
           Inl e \<Rightarrow> Inl ''Bad Request: invalid URL''
         | Inr target \<Rightarrow> Inr target)
      else
        (case req_headers req (js ''host'') of
           None \<Rightarrow> Inl ''Bad Request: missing Host header''
         | Some hostHeader \<Rightarrow>
             if hostHeader = [] then Inl ''Bad Request: missing Host header''
             else (case new_URL pf (js ''http://'' @ hostHeader @ req_url req) of
                     Inl e \<Rightarrow> Inl ''Bad Request: invalid URL''
                   | Inr target \<Rightarrow> Inr target)))"

text \<open>Lines 72-79: the options of the outgoing request.\<close>

definition forward_options :: "request \<Rightarrow> options" where
  "forward_options req =
     \<lparr>opt_method = req_method req,
      opt_headers = (req_headers req)
        (js ''proxy-authorization'' := None, js ''proxy-connection'' := None,
         js ''connection'' := None)\<rparr>"

text \<open>\<open>http.request(target, options, callback)\<close> throws for a URL whose protocol is not
  \<open>http:\<close>; otherwise the request is issued.\<close>

definition http_request :: "url \<Rightarrow> options \<Rightarrow> http_state \<Rightarrow> http_call list \<times> http_state" where
  "http_request target opts st =
     (if url_protocol target \<noteq> js ''http:'' then throw ERR_INVALID_PROTOCOL st
      else ([Http_request target opts], st\<lparr>awaiting := True\<rparr>))"

text \<open>The handler of \<open>'request'\<close>, lines 41-96, on a fresh response.\<close>

definition on_request :: "platform \<Rightarrow> config \<Rightarrow> request \<Rightarrow> http_call list \<times> http_state" where
  "on_request pf cfg req =
     (let proxyAuth = req_headers req (js ''proxy-authorization'') in
      case checkBasicAuth pf cfg proxyAuth of
        Inl e \<Rightarrow> throw e fresh
      | Inr ok \<Rightarrow>
          if \<not> ok then unauthorized fresh
          else (case resolve_target pf req of
                  Inl body \<Rightarrow> respond 400 Map.empty body fresh
                | Inr target \<Rightarrow>
                    if \<not> hostAllowed cfg (url_hostname target) then
                      respond 403 Map.empty ''Forbidden: host not allowed by proxy whitelist'' fresh
                    else (case http_request target (forward_options req) fresh of
                            (cs, st) \<Rightarrow>
                              if uncaught st \<noteq> None then (cs, st)
                              else (cs, st\<lparr>req_piped := True\<rparr>))))"

text \<open>The hop-by-hop headers of line 85.\<close>

definition hop_by_hop :: "jsstring list" where
  "hop_by_hop = map js [''transfer-encoding'', ''connection'', ''keep-alive'',
     ''proxy-authenticate'', ''proxy-authorization'', ''te'', ''trailer'', ''upgrade'']"

text \<open>The callback of \<open>http.request\<close>, lines 81-88.\<close>

definition on_upstream_response :: "nat \<Rightarrow> res_headers \<Rightarrow> http_state \<Rightarrow> http_call list \<times> http_state" where
  "on_upstream_response statusCode upstream_headers st =
     (let headers = foldl (\<lambda>hs h. hs(h := None)) upstream_headers hop_by_hop in
      case res_writeHead statusCode headers st of
        Inl e \<Rightarrow> throw e st
      | Inr (cs, st') \<Rightarrow> (cs, st'\<lparr>res_piped := True\<rparr>))"

text \<open>The handler of \<open>'error'\<close> on the outgoing request, lines 90-93.\<close>

definition on_upstream_error :: "http_state \<Rightarrow> http_call list \<times> http_state" where
  "on_upstream_error st =
     respond 502 Map.empty ''Bad Gateway''
       (st\<lparr>awaiting := False, req_piped := False, res_piped := False\<rparr>)"

text \<open>
  The events of one exchange after the handler has returned. A \<open>pipe\<close> writes every
  chunk of its source to its destination and ends the destination when the source ends.
  An event with no listener does nothing, and nothing happens after an uncaught
  exception.
\<close>

datatype http_event =
    Req_data buffer
  | Req_end
  | Upstream_response nat res_headers
  | Upstream_data buffer
  | Upstream_ended
  | Upstream_error

definition http_step :: "http_state \<Rightarrow> http_event \<Rightarrow> http_call list \<times> http_state" where
  "http_step st ev =
     (if uncaught st \<noteq> None then ([], st)
      else (case ev of
              Req_data chunk \<Rightarrow> if req_piped st then ([Upstream_write chunk], st) else ([], st)
            | Req_end \<Rightarrow>
                if req_piped st then ([Upstream_end], st\<lparr>req_piped := False\<rparr>) else ([], st)
            | Upstream_response statusCode hs \<Rightarrow>
                if awaiting st then on_upstream_response statusCode hs st else ([], st)
            | Upstream_data chunk \<Rightarrow> if res_piped st then ([Res_write chunk], st) else ([], st)
            | Upstream_ended \<Rightarrow>
                if res_piped st then ([Res_end None], st\<lparr>res_piped := False, awaiting := False\<rparr>)
                else ([], st)
            | Upstream_error \<Rightarrow> if awaiting st then on_upstream_error st else ([], st)))"

fun http_events :: "http_state \<Rightarrow> http_event list \<Rightarrow> http_call list \<times> http_state" where
  "http_events st [] = ([], st)"
| "http_events st (ev # evs) =
     (case http_step st ev of
        (cs, st') \<Rightarrow> (case http_events st' evs of (cs', st'') \<Rightarrow> (cs @ cs', st'')))"

text \<open>One exchange: the handler, then the events.\<close>

definition http_relay :: "platform \<Rightarrow> config \<Rightarrow> request \<Rightarrow> http_event list \<Rightarrow> http_call list \<times> http_state" where
  "http_relay pf cfg req evs =
     (case on_request pf cfg req of
        (cs, st) \<Rightarrow> (case http_events st evs of (cs', st') \<Rightarrow> (cs @ cs', st')))"

subsection \<open>Tunnel relay\<close>

text \<open>The calls of a tunnel handler on \<open>net\<close>, on \<open>clientSocket\<close> and on
  \<open>serverSocket\<close>.\<close>

datatype tunnel_call =
    Net_connect int jsstring
  | Client_write buffer
  | Client_end
  | Client_destroy
  | Server_write buffer
  | Server_end

text \<open>
  The state of one tunnel: \<open>connecting\<close> holds while the callback of \<open>net.connect\<close>
  is pending; \<open>error_listening\<close> while the \<open>'error'\<close> listener of line 126 stands on a
  live \<open>serverSocket\<close> (a socket emits \<open>'error'\<close> once); \<open>up_piped\<close> and
  \<open>down_piped\<close> while \<open>clientSocket.pipe(serverSocket)\<close> and
  \<open>serverSocket.pipe(clientSocket)\<close> are in place; \<open>crashed\<close> is an exception that left
  a handler.
\<close>

record tunnel_state =
  connecting :: bool
  error_listening :: bool
  up_piped :: bool
  down_piped :: bool
  crashed :: "exception option"

definition closed :: tunnel_state where
  "closed = \<lparr>connecting = False, error_listening = False, up_piped = False,
             down_piped = False, crashed = None\<rparr>"

definition status_407 :: buffer where
  "status_407 = ascii (''HTTP/1.1 407 Proxy Authentication Required'' @ CRLF
     @ ''Proxy-Authenticate: Basic realm=\"Proxy\"'' @ CRLF @ CRLF)"

definition status_403 :: buffer where
  "status_403 = ascii (''HTTP/1.1 403 Forbidden'' @ CRLF @ CRLF)"

definition status_200 :: buffer where
  "status_200 = ascii (''HTTP/1.1 200 Connection Established'' @ CRLF @ CRLF)"

definition status_502 :: buffer where
  "status_502 = ascii (''HTTP/1.1 502 Bad Gateway'' @ CRLF @ CRLF)"

text \<open>\<open>net.connect(port, host, callback)\<close> throws for a port outside 0..65535;
  otherwise the connection attempt starts.\<close>

definition net_connect :: "int \<Rightarrow> jsstring \<Rightarrow> tunnel_call list \<times> tunnel_state" where
  "net_connect port host =
     (if port < 0 \<or> 65535 < port then ([], closed\<lparr>crashed := Some ERR_SOCKET_BAD_PORT\<rparr>)
      else ([Net_connect port host], closed\<lparr>connecting := True, error_listening := True\<rparr>))"

text \<open>The handler of \<open>'connect'\<close>, lines 99-131. \<open>split\<close> never returns an empty
  array, so \<open>host\<close> is a string.\<close>

definition on_connect :: "platform \<Rightarrow> config \<Rightarrow> request \<Rightarrow> tunnel_call list \<times> tunnel_state" where
  "on_connect pf cfg req =
     (let proxyAuth = req_headers req (js ''proxy-authorization'') in
      case checkBasicAuth pf cfg proxyAuth of
        Inl e \<Rightarrow> ([], closed\<lparr>crashed := Some e\<rparr>)
      | Inr ok \<Rightarrow>
          if \<not> ok then ([Client_write status_407, Client_destroy], closed)
          else (case connect_host (req_url req) of
                  None \<Rightarrow> ([], closed\<lparr>crashed := Some TypeError\<rparr>)
                | Some host \<Rightarrow>
                    let port = connect_port (req_url req) in
                    if \<not> hostAllowed cfg host then
                      ([Client_write status_403, Client_destroy], closed)
                    else net_connect port host))"

text \<open>The callback of \<open>net.connect\<close>, lines 118-124; \<open>head\<close> is the buffer of the
  bytes read past the request head.\<close>

definition on_tunnel_connected :: "buffer \<Rightarrow> tunnel_state \<Rightarrow> tunnel_call list \<times> tunnel_state" where
  "on_tunnel_connected head st =
     ([Client_write status_200] @ (if length head \<noteq> 0 then [Server_write head] else []),
      st\<lparr>connecting := False, up_piped := True, down_piped := True\<rparr>)"

text \<open>The handler of \<open>'error'\<close> on \<open>serverSocket\<close>, lines 126-130.\<close>

definition on_tunnel_error :: "tunnel_state \<Rightarrow> tunnel_call list \<times> tunnel_state" where
  "on_tunnel_error st = ([Client_write status_502, Client_destroy], closed)"

datatype tunnel_event =
    Connected
  | Socket_error
  | Client_data buffer
  | Client_ended
  | Server_data buffer
  | Server_ended

definition tunnel_step :: "buffer \<Rightarrow> tunnel_state \<Rightarrow> tunnel_event \<Rightarrow> tunnel_call list \<times> tunnel_state" where
  "tunnel_step head st ev =
     (if crashed st \<noteq> None then ([], st)
      else (case ev of
              Connected \<Rightarrow> if connecting st then on_tunnel_connected head st else ([], st)
            | Socket_error \<Rightarrow> if error_listening st then on_tunnel_error st else ([], st)
            | Client_data chunk \<Rightarrow> if up_piped st then ([Server_write chunk], st) else ([], st)
            | Client_ended \<Rightarrow>
                if up_piped st then ([Server_end], st\<lparr>up_piped := False\<rparr>) else ([], st)
            | Server_data chunk \<Rightarrow> if down_piped st then ([Client_write chunk], st) else ([], st)
            | Server_ended \<Rightarrow>
                if down_piped st then ([Client_end], st\<lparr>down_piped := False\<rparr>) else ([], st)))"

fun tunnel_events :: "buffer \<Rightarrow> tunnel_state \<Rightarrow> tunnel_event list \<Rightarrow> tunnel_call list \<times> tunnel_state" where
  "tunnel_events head st [] = ([], st)"
| "tunnel_events head st (ev # evs) =
     (case tunnel_step head st ev of
        (cs, st') \<Rightarrow> (case tunnel_events head st' evs of (cs', st'') \<Rightarrow> (cs @ cs', st'')))"

text \<open>One tunnel: the handler, then the events.\<close>

definition tunnel_relay :: "platform \<Rightarrow> config \<Rightarrow> request \<Rightarrow> buffer \<Rightarrow> tunnel_event list \<Rightarrow> tunnel_call list \<times> tunnel_state" where
  "tunnel_relay pf cfg req head evs =
     (case on_connect pf cfg req of
        (cs, st) \<Rightarrow> (case tunnel_events head st evs of (cs', st') \<Rightarrow> (cs @ cs', st')))"

section \<open>Notions of the specification\<close>

text \<open>A credential header the specification calls absent or malformed: no header, no
  \<open>Basic\<close> scheme with a payload, a payload the decoder rejects, or a decoded string
  without the separator.\<close>

definition malformed :: "platform \<Rightarrow> jsstring option \<Rightarrow> bool" where
  "malformed pf header \<longleftrightarrow>
     (case header of
        None \<Rightarrow> True
      | Some h \<Rightarrow>
          (case match_basic h of
             None \<Rightarrow> True
           | Some m1 \<Rightarrow>
               (case base64_toString pf m1 of
                  Inl e \<Rightarrow> True
                | Inr decoded \<Rightarrow> colon \<notin> set decoded)))"

text \<open>A valid base64 encoding in the sense of RFC 4648: characters of the alphabet, a
  length that is a multiple of four, padded with at most two \<open>=\<close> at the end.\<close>

definition base64_alphabet :: "16 word \<Rightarrow> bool" where
  "base64_alphabet c \<longleftrightarrow>
     (0x41 \<le> c \<and> c \<le> 0x5A) \<or> (0x61 \<le> c \<and> c \<le> 0x7A) \<or> (0x30 \<le> c \<and> c \<le> 0x39)
     \<or> c = 0x2B \<or> c = 0x2F"

definition rfc4648_base64 :: "jsstring \<Rightarrow> bool" where
  "rfc4648_base64 s \<longleftrightarrow>
     length s mod 4 = 0 \<and> list_all base64_alphabet (takeWhile (\<lambda>c. c \<noteq> 0x3D) s)
     \<and> dropWhile (\<lambda>c. c \<noteq> 0x3D) s \<in> {[], js ''='', js ''==''}"

text \<open>The hostname without a trailing \<open>:port\<close> segment, as the specification words it:
  the last colon and what follows it are removed.\<close>

definition strip_trailing_port :: "jsstring \<Rightarrow> jsstring" where
  "strip_trailing_port h =
     (if colon \<in> set h then rev (tl (dropWhile (\<lambda>c. c \<noteq> colon) (rev h))) else h)"



text \<open>The calls that reach an upstream, and the bytes a tunnel has written to each
  side.\<close>

fun http_upstream :: "http_call \<Rightarrow> bool" where
  "http_upstream (Http_request target opts) = True"
| "http_upstream (Upstream_write chunk) = True"
| "http_upstream Upstream_end = True"
| "http_upstream c = False"

fun tunnel_upstream :: "tunnel_call \<Rightarrow> bool" where
  "tunnel_upstream (Net_connect port host) = True"
| "tunnel_upstream (Server_write chunk) = True"
| "tunnel_upstream Server_end = True"
| "tunnel_upstream c = False"










section \<open>Example platform\<close>

text \<open>A URL parser for the examples: an absolute \<open>http\<close> or \<open>https\<close> URL whose host is
  a plain name, with an optional port and path. It stands in for \<open>new url.URL\<close> where a
  property is evaluated on a concrete request.\<close>

definition example_URL :: "jsstring \<Rightarrow> exception + url" where
  "example_URL s =
     (if ci_prefix (js ''http://'') s \<or> ci_prefix (js ''https://'') s then
        let http = ci_prefix (js ''http://'') s;
            rest = drop (if http then 7 else 8) s;
            host = takeWhile (\<lambda>c. c \<notin> {colon, 0x2F, 0x3F, 0x23}) rest
        in if host = [] then Inl ERR_INVALID_URL
           else Inr \<lparr>url_protocol = (if http then js ''http:'' else js ''https:''),
                     url_hostname = host, url_href = s\<rparr>
      else Inl ERR_INVALID_URL)"

definition node :: platform where
  "node = \<lparr>base64_toString = node_base64_toString, new_URL = example_URL\<rparr>"

text \<open>The configuration and the requests of the specification's example scenario:
  credentials \<open>alice\<close>/\<open>secret123\<close>, allow-list \<open>["api.example.com"]\<close>.\<close>

definition example_config :: config where
  "example_config =
     \<lparr>PROXY_USER = js ''alice'', PROXY_PASS = js ''secret123'',
      WHITELIST = [js ''api.example.com'']\<rparr>"

definition example_request :: request where
  "example_request =
     \<lparr>req_method = js ''GET'', req_url = js ''http://api.example.com/data'',
      req_headers = [js ''proxy-authorization'' \<mapsto> js ''Basic YWxpY2U6c2VjcmV0MTIz'']\<rparr>"


definition example_target :: url where
  "example_target =
     \<lparr>url_protocol = js ''http:'', url_hostname = js ''api.example.com'',
      url_href = js ''http://api.example.com/data''\<rparr>"

section \<open>Properties of the string functions\<close>

lemma split_not_Nil: "split sep xs \<noteq> []"
  by (induction xs) (simp_all add: Let_def)

lemma hd_split: "hd (split sep xs) = takeWhile (\<lambda>c. c \<noteq> sep) xs"
  by (induction xs) (simp_all add: Let_def)

lemma at_split_0: "at (split sep xs) 0 = Some (takeWhile (\<lambda>c. c \<noteq> sep) xs)"
  using split_not_Nil [of sep xs] hd_split [of sep xs]
  by (cases "split sep xs") (simp_all add: at_def)

lemma split_without: "sep \<notin> set xs \<Longrightarrow> split sep xs = [xs]"
  by (induction xs) (auto simp: Let_def)


lemma split_pieces: "p \<in> set (split sep xs) \<Longrightarrow> sep \<notin> set p"
proof (induction xs arbitrary: p)
  case Nil
  then show ?case by simp
next
  case (Cons c cs)
  obtain r rs where r: "split sep cs = r # rs"
    using split_not_Nil [of sep cs] by (cases "split sep cs") auto
  show ?case
  proof (cases "c = sep")
    case True
    with Cons r show ?thesis by (auto simp: Let_def)
  next
    case False
    with Cons.prems r have "p = c # r \<or> p \<in> set rs" by (auto simp: Let_def)
    with Cons.IH r False show ?thesis by auto
  qed
qed

lemma at_in_set: "at xs i = Some x \<Longrightarrow> x \<in> set xs"
  by (auto simp: at_def split: if_splits)

lemma takeWhile_no_sep: "sep \<notin> set xs \<Longrightarrow> takeWhile (\<lambda>c. c \<noteq> sep) xs = xs"
  by (induction xs) auto

lemma takeWhile_upto_sep:
  "sep \<notin> set x \<Longrightarrow> takeWhile (\<lambda>c. c \<noteq> sep) (x @ sep # ys) = x"
  by (induction x) auto



subsection \<open>parseInt\<close>







subsection \<open>Decoding the example credentials\<close>

lemma decode_user_pass_bang:
  "node_base64_toString (js ''dXNlcjpwYXNz!'') = Inr (js ''user:pass'')"
proof -
  have "base64_decode (js ''dXNlcjpwYXNz!'') = ascii ''user:pass''"
    by code_simp
  moreover have "toString_utf8 (ascii ''user:pass'') = js ''user:pass''"
    by (simp add: toString_utf8_def utf8_lead_def utf16_units_def ascii_def js_def)
  ultimately show ?thesis
    by (simp only: node_base64_toString_def)
qed

lemma decode_alice_secret:
  "node_base64_toString (js ''YWxpY2U6c2U6Y3JldA=='') = Inr (js ''alice:se:cret'')"
proof -
  have "base64_decode (js ''YWxpY2U6c2U6Y3JldA=='') = ascii ''alice:se:cret''"
    by code_simp
  moreover have "toString_utf8 (ascii ''alice:se:cret'') = js ''alice:se:cret''"
    by (simp add: toString_utf8_def utf8_lead_def utf16_units_def ascii_def js_def)
  ultimately show ?thesis
    by (simp only: node_base64_toString_def)
qed

lemma decode_alice:
  "node_base64_toString (js ''YWxpY2U='') = Inr (js ''alice'')"
proof -
  have "base64_decode (js ''YWxpY2U='') = ascii ''alice''"
    by code_simp
  moreover have "toString_utf8 (ascii ''alice'') = js ''alice''"
    by (simp add: toString_utf8_def utf8_lead_def utf16_units_def ascii_def js_def)
  ultimately show ?thesis
    by (simp only: node_base64_toString_def)
qed

lemma decode_alice_secret123:
  "node_base64_toString (js ''YWxpY2U6c2VjcmV0MTIz'') = Inr (js ''alice:secret123'')"
proof -
  have "base64_decode (js ''YWxpY2U6c2VjcmV0MTIz'') = ascii ''alice:secret123''"
    by code_simp
  moreover have "toString_utf8 (ascii ''alice:secret123'') = js ''alice:secret123''"
    by (simp add: toString_utf8_def utf8_lead_def utf16_units_def ascii_def js_def)
  ultimately show ?thesis
    by (simp only: node_base64_toString_def)
qed

section \<open>Authenticator\<close>

text \<open>
  C2. The specification asks for a split on the first colon only, so that a credential
  that decodes to \<open>PROXY_USER + ':' + PROXY_PASS\<close> verifies when the password has a
  colon. The source splits on every colon and compares the second piece: when the
  configured password contains a colon, \<open>checkBasicAuth\<close> returns \<open>false\<close> for every
  header, that credential included.
\<close>

theorem checkBasicAuth_colon_in_password:
  assumes "colon \<in> set (PROXY_PASS cfg)"
  shows "checkBasicAuth pf cfg header = Inr False"
proof -
  have "at (split colon d) 1 \<noteq> Some (PROXY_PASS cfg)" for d
    using assms at_in_set split_pieces by fastforce
  then show ?thesis
    by (simp add: checkBasicAuth_def Let_def split: option.split sum.split)
qed

theorem checkBasicAuth_colon_in_password_witness:
  "match_basic (js ''Basic YWxpY2U6c2U6Y3JldA=='') = Some (js ''YWxpY2U6c2U6Y3JldA=='') \<and>
   base64_toString node (js ''YWxpY2U6c2U6Y3JldA=='') = Inr (js ''alice'' @ colon # js ''se:cret'') \<and>
   checkBasicAuth node \<lparr>PROXY_USER = js ''alice'', PROXY_PASS = js ''se:cret'', WHITELIST = []\<rparr>
     (Some (js ''Basic YWxpY2U6c2U6Y3JldA=='')) = Inr False"
proof -
  have m: "match_basic (js ''Basic YWxpY2U6c2U6Y3JldA=='') = Some (js ''YWxpY2U6c2U6Y3JldA=='')"
    by code_simp
  have d: "js ''alice'' @ colon # js ''se:cret'' = js ''alice:se:cret''"
    by (simp add: js_def colon_def)
  have c: "colon \<in> set (PROXY_PASS \<lparr>PROXY_USER = js ''alice'', PROXY_PASS = js ''se:cret'', WHITELIST = []\<rparr>)"
    by (simp add: js_def colon_def)
  show ?thesis
    using m checkBasicAuth_colon_in_password [OF c, of node "Some (js ''Basic YWxpY2U6c2U6Y3JldA=='')"]
    by (simp add: node_def decode_alice_secret d)
qed

text \<open>
  C10. A \<open>Basic\<close> credential whose payload decodes to a string without a colon is
  refused, whatever the configured pair: the password of the destructuring is
  \<open>undefined\<close>, which is no string.
\<close>

theorem checkBasicAuth_no_separator:
  assumes "match_basic h = Some m1" and "base64_toString pf m1 = Inr decoded"
    and "colon \<notin> set decoded"
  shows "checkBasicAuth pf cfg (Some h) = Inr False"
  using assms by (simp add: checkBasicAuth_def split_without at_def)

theorem checkBasicAuth_no_separator_witness:
  "match_basic (js ''Basic YWxpY2U='') = Some (js ''YWxpY2U='') \<and>
   base64_toString node (js ''YWxpY2U='') = Inr (js ''alice'') \<and>
   colon \<notin> set (js ''alice'') \<and>
   checkBasicAuth node \<lparr>PROXY_USER = js ''alice'', PROXY_PASS = js '''', WHITELIST = []\<rparr>
     (Some (js ''Basic YWxpY2U='')) = Inr False"
proof -
  have m: "match_basic (js ''Basic YWxpY2U='') = Some (js ''YWxpY2U='')"
    by code_simp
  have d: "base64_toString node (js ''YWxpY2U='') = Inr (js ''alice'')"
    by (simp add: node_def decode_alice)
  have c: "colon \<notin> set (js ''alice'')"
    by (simp add: js_def colon_def)
  show ?thesis
    using m d c checkBasicAuth_no_separator [OF m d c] by simp
qed

text \<open>
  C9, as stated, fails for an invalid base64 encoding: Node.js skips the \<open>!\<close> of
  \<open>dXNlcjpwYXNz!\<close>, decodes \<open>user:pass\<close>, and the credential verifies.
\<close>

theorem checkBasicAuth_invalid_base64_counterexample:
  "\<not> rfc4648_base64 (js ''dXNlcjpwYXNz!'') \<and>
   checkBasicAuth node \<lparr>PROXY_USER = js ''user'', PROXY_PASS = js ''pass'', WHITELIST = []\<rparr>
     (Some (js ''Basic dXNlcjpwYXNz!'')) = Inr True"
proof -
  have v: "\<not> rfc4648_base64 (js ''dXNlcjpwYXNz!'')"
    by (simp add: rfc4648_base64_def js_def)
  have m: "match_basic (js ''Basic dXNlcjpwYXNz!'') = Some (js ''dXNlcjpwYXNz!'')"
    by code_simp
  have n: "js ''Basic dXNlcjpwYXNz!'' \<noteq> []"
    by (simp add: js_def)
  have s: "split colon (js ''user:pass'') = [js ''user'', js ''pass'']"
    by code_simp
  show ?thesis
    using v by (simp add: checkBasicAuth_def m n s node_def decode_user_pass_bang at_def)
qed

text \<open>
  C9, amended. \<open>checkBasicAuth\<close> never throws, whatever the decoder does, and it
  returns \<open>false\<close> for a header that is absent, that has no \<open>Basic\<close> scheme with a
  payload, whose payload the decoder rejects with an exception, or whose decoded
  payload has no colon.
\<close>

theorem checkBasicAuth_never_throws:
  "(\<exists>b. checkBasicAuth pf cfg header = Inr b) \<and>
   (malformed pf header \<longrightarrow> checkBasicAuth pf cfg header = Inr False)"
  by (auto simp: checkBasicAuth_def malformed_def split_without at_def Let_def
      split: option.splits sum.splits)

theorem checkBasicAuth_never_throws_witness:
  "malformed node None \<and> malformed node (Some (js ''Bearer YWxpY2U='')) \<and>
   checkBasicAuth node \<lparr>PROXY_USER = js ''alice'', PROXY_PASS = js ''secret123'', WHITELIST = []\<rparr>
     None = Inr False \<and>
   checkBasicAuth node \<lparr>PROXY_USER = js ''alice'', PROXY_PASS = js ''secret123'', WHITELIST = []\<rparr>
     (Some (js ''Bearer YWxpY2U='')) = Inr False"
proof -
  have m: "match_basic (js ''Bearer YWxpY2U='') = None"
    by code_simp
  have a: "malformed node None"
    by (simp add: malformed_def)
  have b: "malformed node (Some (js ''Bearer YWxpY2U=''))"
    by (simp add: malformed_def m)
  show ?thesis
    using a b
      checkBasicAuth_never_throws [of node "\<lparr>PROXY_USER = js ''alice'', PROXY_PASS = js ''secret123'', WHITELIST = []\<rparr>" None]
      checkBasicAuth_never_throws [of node "\<lparr>PROXY_USER = js ''alice'', PROXY_PASS = js ''secret123'', WHITELIST = []\<rparr>" "Some (js ''Bearer YWxpY2U='')"]
    by simp
qed

section \<open>Destination authorizer\<close>

text \<open>
  C3. The specification asks for the hostname without a trailing \<open>:port\<close> to be looked
  up in the allow-list by equality of strings. The source looks up
  \<open>hostname.split(':')[0]\<close>, the part before the first colon. For a hostname without a
  colon and for \<open>host:port\<close> with no colon in \<open>host\<close> that is the host, as specified;
  for a hostname with more colons, such as an IPv6 literal, it is not.
\<close>

theorem hostAllowed_first_colon:
  assumes "WHITELIST cfg \<noteq> []"
  shows "(hostAllowed cfg hostname \<longleftrightarrow>
            takeWhile (\<lambda>c. c \<noteq> colon) hostname \<in> set (WHITELIST cfg))
       \<and> (colon \<notin> set hostname \<longrightarrow>
            (hostAllowed cfg hostname \<longleftrightarrow> hostname \<in> set (WHITELIST cfg)))
       \<and> (\<forall>host port. hostname = host @ colon # port \<and> colon \<notin> set host \<longrightarrow>
            (hostAllowed cfg hostname \<longleftrightarrow> host \<in> set (WHITELIST cfg)))"
  using assms by (simp add: hostAllowed_def at_split_0 takeWhile_no_sep takeWhile_upto_sep)

theorem hostAllowed_first_colon_witness:
  "js ''[::1]'' \<in> set (WHITELIST (example_config\<lparr>WHITELIST := [js ''[::1]'']\<rparr>))
 \<and> strip_trailing_port (js ''[::1]:443'') = js ''[::1]''
 \<and> \<not> hostAllowed (example_config\<lparr>WHITELIST := [js ''[::1]'']\<rparr>) (js ''[::1]:443'')
 \<and> \<not> hostAllowed (example_config\<lparr>WHITELIST := [js ''[::1]'']\<rparr>) (js ''[::1]'')
 \<and> hostAllowed example_config (js ''api.example.com'' @ colon # js ''8080'')"
proof -
  let ?cfg = "example_config\<lparr>WHITELIST := [js ''[::1]'']\<rparr>"
  have w: "WHITELIST ?cfg \<noteq> []" by simp
  have w': "WHITELIST example_config \<noteq> []" by (simp add: example_config_def)
  have s: "strip_trailing_port (js ''[::1]:443'') = js ''[::1]''"
    by (simp add: strip_trailing_port_def js_def colon_def)
  have t1: "takeWhile (\<lambda>c. c \<noteq> colon) (js ''[::1]:443'') = js ''[''"
    by (simp add: js_def colon_def)
  have t2: "takeWhile (\<lambda>c. c \<noteq> colon) (js ''[::1]'') = js ''[''"
    by (simp add: js_def colon_def)
  have ne: "js ''['' \<noteq> js ''[::1]''" by (simp add: js_def)
  have c: "colon \<notin> set (js ''api.example.com'')" by (simp add: js_def colon_def)
  have m: "js ''api.example.com'' \<in> set (WHITELIST example_config)"
    by (simp add: example_config_def)
  from hostAllowed_first_colon [OF w, of "js ''[::1]:443''", THEN conjunct1] t1 ne
  have a: "\<not> hostAllowed ?cfg (js ''[::1]:443'')" by simp
  from hostAllowed_first_colon [OF w, of "js ''[::1]''", THEN conjunct1] t2 ne
  have b: "\<not> hostAllowed ?cfg (js ''[::1]'')" by simp
  from hostAllowed_first_colon [OF w', of "js ''api.example.com'' @ colon # js ''8080''",
      THEN conjunct1] c m
  have d: "hostAllowed example_config (js ''api.example.com'' @ colon # js ''8080'')"
    by (simp add: takeWhile_upto_sep)
  from s a b d show ?thesis by simp
qed

text \<open>
  C4. With an empty allow-list \<open>hostAllowed\<close> returns \<open>true\<close> for every hostname.
\<close>

theorem hostAllowed_empty_list: "hostAllowed (cfg\<lparr>WHITELIST := []\<rparr>) hostname"
  by (simp add: hostAllowed_def)

section \<open>Port of a tunnel request\<close>




section \<open>Properties of the handlers\<close>

lemma checkBasicAuth_returns: "\<exists>b. checkBasicAuth pf cfg header = Inr b"
  by (auto simp: checkBasicAuth_def Let_def split: option.split sum.split)


lemma http_events_idle:
  "\<not> awaiting st \<Longrightarrow> \<not> req_piped st \<Longrightarrow> \<not> res_piped st \<Longrightarrow> http_events st evs = ([], st)"
  by (induction evs) (simp_all add: http_step_def split: http_event.split)

lemma fresh_flags [simp]:
  "\<not> headersSent fresh" "\<not> awaiting fresh" "\<not> req_piped fresh" "\<not> res_piped fresh"
  "uncaught fresh = None"
  by (simp_all add: fresh_def)

lemma closed_flags [simp]:
  "\<not> connecting closed" "\<not> error_listening closed" "\<not> up_piped closed"
  "\<not> down_piped closed" "crashed closed = None"
  by (simp_all add: closed_def)

lemma unauthorized_fresh:
  "unauthorized fresh =
     ([Res_writeHead 407 [js ''Proxy-Authenticate'' \<mapsto> Str (js ''Basic realm=\"Proxy\"'')],
       Res_end (Some (ascii ''Proxy authentication required''))],
      fresh\<lparr>headersSent := True\<rparr>)"
  by (simp add: unauthorized_def respond_def res_writeHead_def)

lemma respond_fresh:
  "100 \<le> status \<Longrightarrow> status \<le> 999 \<Longrightarrow>
   respond status hs body fresh =
     ([Res_writeHead status hs, Res_end (Some (ascii body))], fresh\<lparr>headersSent := True\<rparr>)"
  by (simp add: respond_def res_writeHead_def)

lemma on_request_unauthorized:
  assumes "checkBasicAuth pf cfg (req_headers req (js ''proxy-authorization'')) \<noteq> Inr True"
  shows "on_request pf cfg req = unauthorized fresh"
proof -
  obtain b where "checkBasicAuth pf cfg (req_headers req (js ''proxy-authorization'')) = Inr b"
    using checkBasicAuth_returns by blast
  with assms show ?thesis by (simp add: on_request_def)
qed

lemma on_request_forward:
  assumes "checkBasicAuth pf cfg (req_headers req (js ''proxy-authorization'')) = Inr True"
    and "resolve_target pf req = Inr target"
    and "hostAllowed cfg (url_hostname target)"
    and "url_protocol target = js ''http:''"
  shows "on_request pf cfg req =
           ([Http_request target (forward_options req)],
            fresh\<lparr>awaiting := True, req_piped := True\<rparr>)"
  using assms by (simp add: on_request_def http_request_def)

lemma on_request_cases:
  assumes "on_request pf cfg req = (cs, st)"
  shows "(checkBasicAuth pf cfg (req_headers req (js ''proxy-authorization'')) = Inr True
           \<and> (\<exists>target. resolve_target pf req = Inr target \<and> hostAllowed cfg (url_hostname target)))
       \<or> ((\<forall>c \<in> set cs. \<not> http_upstream c)
           \<and> \<not> awaiting st \<and> \<not> req_piped st \<and> \<not> res_piped st)"
proof (cases "checkBasicAuth pf cfg (req_headers req (js ''proxy-authorization'')) = Inr True")
  case False
  with assms show ?thesis
    by (auto simp: on_request_unauthorized unauthorized_fresh)
next
  case auth: True
  show ?thesis
  proof (cases "resolve_target pf req")
    case (Inl body)
    with auth assms show ?thesis
      by (auto simp: on_request_def respond_fresh)
  next
    case (Inr target)
    show ?thesis
    proof (cases "hostAllowed cfg (url_hostname target)")
      case True
      with auth Inr show ?thesis by simp
    next
      case False
      with auth Inr assms show ?thesis
        by (auto simp: on_request_def respond_fresh)
    qed
  qed
qed


lemma tunnel_events_closed:
  "\<not> connecting st \<Longrightarrow> \<not> error_listening st \<Longrightarrow> \<not> up_piped st \<Longrightarrow> \<not> down_piped st \<Longrightarrow>
   tunnel_events head st evs = ([], st)"
  by (induction evs) (simp_all add: tunnel_step_def split: tunnel_event.split)

lemma tunnel_events_crashed:
  "crashed st \<noteq> None \<Longrightarrow> tunnel_events head st evs = ([], st)"
  by (induction evs) (simp_all add: tunnel_step_def)

lemma on_connect_unauthorized:
  assumes "checkBasicAuth pf cfg (req_headers req (js ''proxy-authorization'')) \<noteq> Inr True"
  shows "on_connect pf cfg req = ([Client_write status_407, Client_destroy], closed)"
proof -
  obtain b where "checkBasicAuth pf cfg (req_headers req (js ''proxy-authorization'')) = Inr b"
    using checkBasicAuth_returns by blast
  with assms show ?thesis by (simp add: on_connect_def)
qed


lemma on_connect_cases:
  assumes "on_connect pf cfg req = (cs, st)"
  shows "(checkBasicAuth pf cfg (req_headers req (js ''proxy-authorization'')) = Inr True
           \<and> (\<exists>host. connect_host (req_url req) = Some host \<and> hostAllowed cfg host))
       \<or> ((\<forall>c \<in> set cs. \<not> tunnel_upstream c)
           \<and> (crashed st \<noteq> None
               \<or> \<not> connecting st \<and> \<not> error_listening st \<and> \<not> up_piped st \<and> \<not> down_piped st))"
proof (cases "checkBasicAuth pf cfg (req_headers req (js ''proxy-authorization'')) = Inr True")
  case False
  with assms show ?thesis
    by (auto simp: on_connect_unauthorized)
next
  case True
  with assms show ?thesis
    by (auto simp: on_connect_def net_connect_def Let_def
        split: option.splits if_splits)
qed

subsection \<open>The example scenario\<close>

lemma example_auth:
  "checkBasicAuth node example_config (req_headers example_request (js ''proxy-authorization''))
     = Inr True"
proof -
  have m: "match_basic (js ''Basic YWxpY2U6c2VjcmV0MTIz'') = Some (js ''YWxpY2U6c2VjcmV0MTIz'')"
    by code_simp
  have n: "js ''Basic YWxpY2U6c2VjcmV0MTIz'' \<noteq> []"
    by (simp add: js_def)
  have s: "split colon (js ''alice:secret123'') = [js ''alice'', js ''secret123'']"
    by code_simp
  show ?thesis
    by (simp add: checkBasicAuth_def example_request_def example_config_def m n s node_def
        decode_alice_secret123 at_def)
qed


lemma example_resolve: "resolve_target node example_request = Inr example_target"
proof -
  have "example_URL (js ''http://api.example.com/data'') = Inr example_target"
    by (simp add: example_URL_def example_target_def ci_prefix_def canon_def js_def colon_def)
  moreover have "test_absolute (js ''http://api.example.com/data'')"
    by (simp add: test_absolute_def ci_prefix_def canon_def js_def)
  ultimately show ?thesis
    by (simp add: resolve_target_def example_request_def node_def)
qed

lemma example_allowed: "hostAllowed example_config (url_hostname example_target)"
  by (simp add: hostAllowed_def example_config_def example_target_def at_def js_def colon_def)

lemma example_protocol: "url_protocol example_target = js ''http:''"
  by (simp add: example_target_def)





subsection \<open>Phases of an exchange\<close>










section \<open>Order of the checks and the upstream calls\<close>

text \<open>
  C1. In both relays a call that reaches an upstream (opening the connection, writing
  to it, ending it) occurs in an exchange only when the credential check and the
  destination check of that request have both succeeded, whatever events follow the
  handler. A request whose \<open>Proxy-Authorization\<close> is missing or wrong gets the 407
  answer and nothing else: no upstream call at all.
\<close>

theorem no_upstream_before_authorization:
  "((\<exists>c \<in> set (fst (http_relay pf cfg req evs)). http_upstream c) \<longrightarrow>
      checkBasicAuth pf cfg (req_headers req (js ''proxy-authorization'')) = Inr True
      \<and> (\<exists>target. resolve_target pf req = Inr target \<and> hostAllowed cfg (url_hostname target)))
 \<and> ((\<exists>c \<in> set (fst (tunnel_relay pf cfg req head tevs)). tunnel_upstream c) \<longrightarrow>
      checkBasicAuth pf cfg (req_headers req (js ''proxy-authorization'')) = Inr True
      \<and> (\<exists>host. connect_host (req_url req) = Some host \<and> hostAllowed cfg host))
 \<and> (checkBasicAuth pf cfg (req_headers req (js ''proxy-authorization'')) \<noteq> Inr True \<longrightarrow>
      fst (http_relay pf cfg req evs) =
        [Res_writeHead 407 [js ''Proxy-Authenticate'' \<mapsto> Str (js ''Basic realm=\"Proxy\"'')],
         Res_end (Some (ascii ''Proxy authentication required''))]
      \<and> fst (tunnel_relay pf cfg req head tevs) = [Client_write status_407, Client_destroy])"
proof -
  let ?auth = "checkBasicAuth pf cfg (req_headers req (js ''proxy-authorization'')) = Inr True"
  have http: "?auth \<and> (\<exists>target. resolve_target pf req = Inr target
                  \<and> hostAllowed cfg (url_hostname target))"
    if up: "\<exists>c \<in> set (fst (http_relay pf cfg req evs)). http_upstream c"
  proof (rule ccontr)
    assume neg: "\<not> ?thesis"
    obtain cs st where h: "on_request pf cfg req = (cs, st)"
      by (cases "on_request pf cfg req") auto
    from on_request_cases [OF h] neg have quiet: "\<forall>c \<in> set cs. \<not> http_upstream c"
      and idle: "\<not> awaiting st" "\<not> req_piped st" "\<not> res_piped st"
      by blast+
    from idle have "http_events st evs = ([], st)" by (rule http_events_idle)
    with h have "fst (http_relay pf cfg req evs) = cs" by (simp add: http_relay_def)
    with up quiet show False by simp
  qed
  have tunnel: "?auth \<and> (\<exists>host. connect_host (req_url req) = Some host \<and> hostAllowed cfg host)"
    if up: "\<exists>c \<in> set (fst (tunnel_relay pf cfg req head tevs)). tunnel_upstream c"
  proof (rule ccontr)
    assume neg: "\<not> ?thesis"
    obtain cs st where h: "on_connect pf cfg req = (cs, st)"
      by (cases "on_connect pf cfg req") auto
    from on_connect_cases [OF h] neg have quiet: "\<forall>c \<in> set cs. \<not> tunnel_upstream c"
      and idle: "crashed st \<noteq> None
         \<or> \<not> connecting st \<and> \<not> error_listening st \<and> \<not> up_piped st \<and> \<not> down_piped st"
      by blast+
    from idle have "tunnel_events head st tevs = ([], st)"
      using tunnel_events_crashed tunnel_events_closed by blast
    with h have "fst (tunnel_relay pf cfg req head tevs) = cs" by (simp add: tunnel_relay_def)
    with up quiet show False by simp
  qed
  have refused: "fst (http_relay pf cfg req evs) =
        [Res_writeHead 407 [js ''Proxy-Authenticate'' \<mapsto> Str (js ''Basic realm=\"Proxy\"'')],
         Res_end (Some (ascii ''Proxy authentication required''))]
      \<and> fst (tunnel_relay pf cfg req head tevs) = [Client_write status_407, Client_destroy]"
    if no: "\<not> ?auth"
  proof -
    have "http_events (fresh\<lparr>headersSent := True\<rparr>) evs = ([], fresh\<lparr>headersSent := True\<rparr>)"
      by (rule http_events_idle) simp_all
    moreover have "tunnel_events head closed tevs = ([], closed)"
      by (rule tunnel_events_closed) simp_all
    ultimately show ?thesis
      by (simp add: http_relay_def tunnel_relay_def on_request_unauthorized [OF no]
          on_connect_unauthorized [OF no] unauthorized_fresh)
  qed
  from http tunnel refused show ?thesis by blast
qed

theorem no_upstream_before_authorization_witness:
  "(\<exists>c \<in> set (fst (http_relay node example_config example_request [])). http_upstream c)
 \<and> checkBasicAuth node example_config (req_headers example_request (js ''proxy-authorization''))
     = Inr True
 \<and> hostAllowed example_config (url_hostname example_target)
 \<and> checkBasicAuth node example_config
      (req_headers (example_request\<lparr>req_headers := Map.empty\<rparr>) (js ''proxy-authorization''))
     \<noteq> Inr True
 \<and> fst (http_relay node example_config (example_request\<lparr>req_headers := Map.empty\<rparr>)
      [Req_data [], Upstream_error]) =
      [Res_writeHead 407 [js ''Proxy-Authenticate'' \<mapsto> Str (js ''Basic realm=\"Proxy\"'')],
       Res_end (Some (ascii ''Proxy authentication required''))]"
proof -
  have up: "\<exists>c \<in> set (fst (http_relay node example_config example_request [])). http_upstream c"
    by (simp add: http_relay_def
        on_request_forward [OF example_auth example_resolve example_allowed example_protocol])
  have no: "checkBasicAuth node example_config
      (req_headers (example_request\<lparr>req_headers := Map.empty\<rparr>) (js ''proxy-authorization''))
     \<noteq> Inr True"
    by (simp add: checkBasicAuth_def)
  note authorized =
    no_upstream_before_authorization [of node example_config example_request "[]" "[]" "[]",
      THEN conjunct1, THEN mp, OF up, THEN conjunct1]
  note refused =
    no_upstream_before_authorization [of node example_config
      "example_request\<lparr>req_headers := Map.empty\<rparr>" "[Req_data [], Upstream_error]" "[]" "[]",
      THEN conjunct2, THEN conjunct2, THEN mp, OF no, THEN conjunct1]
  from up authorized example_allowed no refused show ?thesis
    by (intro conjI)
qed

section \<open>HTTP relay\<close>






section \<open>Tunnel relay\<close>



end
